theory Spec2Isabelle
  imports Main "HOL-Library.Word"
begin

section \<open>JavaScript values\<close>

text \<open>
  The handler \<open>Exchange1c\<close> of \<open>src/First task/first.ts\<close> reads query parameters and
  cookies that may be \<open>undefined\<close>. Such a value is a \<open>string option\<close>, with \<open>None\<close>
  for \<open>undefined\<close>. \<open>truthy\<close> is the test JavaScript applies in \<open>if (v)\<close> and \<open>!v\<close>;
  \<open>template\<close> is the text a template literal inserts for the value.
\<close>

definition truthy :: "string option \<Rightarrow> bool" where
  "truthy v = (case v of None \<Rightarrow> False | Some s \<Rightarrow> s \<noteq> [])"

definition template :: "string option \<Rightarrow> string" where
  "template v = (case v of None \<Rightarrow> ''undefined'' | Some s \<Rightarrow> s)"

definition startsWith :: "string \<Rightarrow> string \<Rightarrow> bool" where
  "startsWith s p = (take (length p) s = p)"

text \<open>\<open>lines.join(sep)\<close> of \<open>Array.prototype.join\<close>.\<close>

fun join :: "string \<Rightarrow> string list \<Rightarrow> string" where
  "join sep [] = []"
| "join sep [x] = x"
| "join sep (x # y # ys) = x @ sep @ join sep (y # ys)"

text \<open>The decimal text of an integer, as a template literal prints a whole number.\<close>

fun digits :: "nat \<Rightarrow> string" where
  "digits n =
     (if n < 10 then [''0123456789'' ! n]
      else digits (n div 10) @ [''0123456789'' ! (n mod 10)])"

declare digits.simps [simp del]

definition numberToString :: "int \<Rightarrow> string" where
  "numberToString i = (if i < 0 then CHR ''-'' # digits (nat (- i)) else digits (nat i))"

text \<open>
  \<open>Math.round(ms / 1000)\<close> on a whole number of milliseconds: JavaScript rounds a half
  towards plus infinity.
\<close>

definition Math_round_toSeconds :: "int \<Rightarrow> int" where
  "Math_round_toSeconds ms = (ms + 500) div 1000"

section \<open>Node's \<open>path.posix\<close>\<close>

text \<open>
  \<open>posix.dirname\<close>, \<open>posix.basename\<close> and \<open>posix.join\<close> are library functions of Node.
  They are written here as the library computes them: \<open>dirname\<close> and \<open>basename\<close> skip
  trailing slashes and cut at the last slash before the final component; \<open>join\<close>
  concatenates its non-empty arguments with a slash and normalises the result (empty and
  \<open>.\<close> segments dropped, \<open>..\<close> removing the segment before it).
\<close>

definition isSlash :: "char \<Rightarrow> bool" where
  "isSlash c = (c = CHR ''/'')"

definition posix_dirname :: "string \<Rightarrow> string" where
  "posix_dirname path =
     (if path = [] then ''.''
      else
        let hasRoot = isSlash (hd path);
            r = dropWhile (\<lambda>c. \<not> isSlash c) (dropWhile isSlash (rev (tl path)))
        in if r = [] then (if hasRoot then ''/'' else ''.'')
           else if hasRoot \<and> length r = 1 then ''//''
           else take (length r) path)"

definition posix_basename :: "string \<Rightarrow> string" where
  "posix_basename path =
     rev (takeWhile (\<lambda>c. \<not> isSlash c) (dropWhile isSlash (rev path)))"

fun splitSlash :: "string \<Rightarrow> string list" where
  "splitSlash [] = [[]]"
| "splitSlash (c # cs) =
     (if isSlash c then [] # splitSlash cs
      else (case splitSlash cs of [] \<Rightarrow> [[c]] | s # ss \<Rightarrow> (c # s) # ss))"

text \<open>
  \<open>normalizeString\<close>: the segments kept so far are \<open>res\<close>; \<open>allowAboveRoot\<close> keeps a
  \<open>..\<close> that has nothing left to remove.
\<close>

fun normalizeSegments :: "bool \<Rightarrow> string list \<Rightarrow> string list \<Rightarrow> string list" where
  "normalizeSegments allowAboveRoot res [] = res"
| "normalizeSegments allowAboveRoot res (s # ss) =
     (if s = [] \<or> s = ''.'' then normalizeSegments allowAboveRoot res ss
      else if s = ''..'' then
        (if res \<noteq> [] \<and> last res \<noteq> ''..'' then normalizeSegments allowAboveRoot (butlast res) ss
         else if allowAboveRoot then normalizeSegments allowAboveRoot (res @ [''..'']) ss
         else normalizeSegments allowAboveRoot res ss)
      else normalizeSegments allowAboveRoot (res @ [s]) ss)"

definition normalizeString :: "string \<Rightarrow> bool \<Rightarrow> string" where
  "normalizeString path allowAboveRoot =
     join ''/'' (normalizeSegments allowAboveRoot [] (splitSlash path))"

definition posix_normalize :: "string \<Rightarrow> string" where
  "posix_normalize path =
     (if path = [] then ''.''
      else
        let isAbsolute = isSlash (hd path);
            trailingSeparator = isSlash (last path);
            p = normalizeString path (\<not> isAbsolute)
        in if p = [] then
             (if isAbsolute then ''/'' else if trailingSeparator then ''./'' else ''.'')
           else
             (let p' = (if trailingSeparator then p @ ''/'' else p)
              in if isAbsolute then CHR ''/'' # p' else p'))"

definition posix_join :: "string \<Rightarrow> string \<Rightarrow> string" where
  "posix_join a b =
     (if a = [] \<and> b = [] then ''.''
      else if a = [] then posix_normalize b
      else if b = [] then posix_normalize a
      else posix_normalize (a @ ''/'' @ b))"

section \<open>Data model\<close>

record BasicCredentials =
  username :: string
  password :: string

record Settings = BasicCredentials +
  zip_flag :: bool
  fileSizeLimit :: int
  sessionDurationSeconds :: int
  sessionIdCookieName :: string
  csrfProtection :: bool
  csrfTokenName :: string
  sessionsStoragePath :: string

text \<open>
  \<open>RequestSessionInfo.sessionId\<close> is \<open>cookies[name]\<close>, which is \<open>undefined\<close> when the
  cookie is not sent. Times are whole milliseconds since the epoch, the value of a
  JavaScript \<open>Date\<close>.
\<close>

record RequestSessionInfo =
  sessionId :: "string option"
  csrfToken :: string

record ExchangeSession = RequestSessionInfo +
  expirationTimestamp :: int

text \<open>
  A session document as Firestore holds it. \<open>storedExpiration\<close> is the field
  \<open>expirationTimestamp\<close> already converted by \<open>toDate()\<close>; \<open>None\<close> is a document
  without the field, which \<open>loadSession\<close> tests for.
\<close>

record ExchangeSessionStoredInFirestore = RequestSessionInfo +
  storedExpiration :: "int option"

text \<open>
  Firestore is a map from document paths to documents, Cloud Storage the sequence of
  uploads made so far, each to a bucket and a remote path.
\<close>

type_synonym Buffer = "8 word list"

record Upload =
  bucketName :: string
  remotePath :: string
  data :: Buffer

record Cloud =
  firestore :: "string \<rightharpoonup> ExchangeSessionStoredInFirestore"
  storage :: "Upload list"

text \<open>
  What a request reads from outside the handler: \<open>utc\<close> is \<open>DateTime.utc()\<close> in
  milliseconds (one instant for the request), \<open>toFormat\<close> the text luxon prints for that
  instant in a given format, \<open>uuidv4 n\<close> the \<open>n\<close>-th identifier drawn during the request.
\<close>

record Env =
  utc :: int
  toFormat :: "string \<Rightarrow> string"
  uuidv4 :: "nat \<Rightarrow> string"

text \<open>
  The parts of the HTTP request the handler reads: the query parameters, the cookies of
  the \<open>Cookie\<close> header as the \<open>cookie\<close> library parses them (\<open>None\<close> when the header is
  absent or empty), the name and password \<open>basic-auth\<close> extracts (\<open>None\<close> when it finds
  none), and the raw body.
\<close>

record Request =
  query_type :: "string option"
  query_mode :: "string option"
  query_filename :: "string option"
  query_sessid :: "string option"
  cookies :: "(string \<times> string) list option"
  auth :: "(string \<times> string) option"
  rawBody :: "Buffer option"

datatype error = Error string

record Validation =
  success :: bool
  error :: "string option"

section \<open>The handler\<close>

text \<open>The field \<open>exchangeSessionDurationSeconds\<close> of the class, initialised to 3600.\<close>

definition exchangeSessionDurationSeconds :: int where
  "exchangeSessionDurationSeconds = 3600"

definition newline :: string where
  "newline = [CHR 0x0A]"

definition result :: "string list \<Rightarrow> string" where
  "result lines = join newline lines"

definition failureResult :: "string option \<Rightarrow> string" where
  "failureResult message =
     result [''failure'', (case message of None \<Rightarrow> [] | Some m \<Rightarrow> m)]"

text \<open>
  \<open>saveToStorage\<close> writes the body to the remote path of the bucket; the model records
  the upload whose write stream finishes.
\<close>

definition saveToStorage ::
  "string \<Rightarrow> string \<Rightarrow> string \<Rightarrow> string \<Rightarrow> Buffer \<Rightarrow> Cloud \<Rightarrow> Cloud" where
  "saveToStorage bucket folder timestamp fileName body cloud =
     (let path = posix_join folder
                   (if timestamp \<noteq> [] then timestamp @ ''_'' @ fileName else fileName)
      in cloud\<lparr>storage := storage cloud @
           [\<lparr>bucketName = bucket, remotePath = path, data = body\<rparr>]\<rparr>)"

definition getRequestSessionInfo :: "Settings \<Rightarrow> Request \<Rightarrow> RequestSessionInfo" where
  "getRequestSessionInfo settings request =
     \<lparr>sessionId = (case cookies request of
                     None \<Rightarrow> Some []
                   | Some cs \<Rightarrow> map_of cs (sessionIdCookieName settings)),
      csrfToken = (if truthy (query_sessid request) then the (query_sessid request) else [])\<rparr>"

definition getBasicCredentials :: "Request \<Rightarrow> BasicCredentials" where
  "getBasicCredentials request =
     (case auth request of
        None \<Rightarrow> \<lparr>username = [], password = []\<rparr>
      | Some (name, pass) \<Rightarrow> \<lparr>username = name, password = pass\<rparr>)"

text \<open>
  \<open>loadSession\<close> reads the document at \<open>sessionsStoragePath + '/' + sessionId\<close>. A
  document that exists has data, so of the three tests before the delete the model keeps
  the missing and the expired \<open>expirationTimestamp\<close>.
\<close>

definition docPath :: "Settings \<Rightarrow> string \<Rightarrow> string" where
  "docPath settings sid = sessionsStoragePath settings @ ''/'' @ sid"

definition loadSession ::
  "Env \<Rightarrow> Settings \<Rightarrow> string option \<Rightarrow> Cloud \<Rightarrow> ExchangeSession option \<times> Cloud" where
  "loadSession env settings sid cloud =
     (if \<not> truthy sid then (None, cloud)
      else
        let p = docPath settings (the sid) in
        case firestore cloud p of
          None \<Rightarrow> (None, cloud)
        | Some storedSession \<Rightarrow>
            (case storedExpiration storedSession of
               None \<Rightarrow> (None, cloud\<lparr>firestore := (firestore cloud)(p := None)\<rparr>)
             | Some t \<Rightarrow>
                 if t \<le> utc env
                 then (None, cloud\<lparr>firestore := (firestore cloud)(p := None)\<rparr>)
                 else (Some \<lparr>sessionId = sessionId storedSession,
                             csrfToken = csrfToken storedSession,
                             expirationTimestamp = t\<rparr>, cloud)))"

text \<open>
  The documents of the collection \<open>sessionsStoragePath\<close> are those one segment below
  it. The query selects the documents whose \<open>expirationTimestamp\<close> is at most now (a
  document without the field is not selected); each is deleted.
\<close>

definition inCollection :: "string \<Rightarrow> string \<Rightarrow> bool" where
  "inCollection coll p =
     (let n = length coll + 1; docId = drop n p
      in take n p = coll @ ''/'' \<and> docId \<noteq> [] \<and> CHR ''/'' \<notin> set docId)"

definition deleteExpiredSessions :: "Env \<Rightarrow> Settings \<Rightarrow> Cloud \<Rightarrow> Cloud" where
  "deleteExpiredSessions env settings cloud =
     cloud\<lparr>firestore := (\<lambda>p.
        case firestore cloud p of
          None \<Rightarrow> None
        | Some d \<Rightarrow>
            (case storedExpiration d of
               None \<Rightarrow> Some d
             | Some t \<Rightarrow>
                 if inCollection (sessionsStoragePath settings) p \<and> t \<le> utc env
                 then None else Some d))\<rparr>"

definition saveSession :: "Settings \<Rightarrow> ExchangeSession \<Rightarrow> Cloud \<Rightarrow> Cloud" where
  "saveSession settings session cloud =
     cloud\<lparr>firestore := (firestore cloud)
        (docPath settings (template (sessionId session)) \<mapsto>
           \<lparr>sessionId = sessionId session,
            csrfToken = csrfToken session,
            storedExpiration = Some (expirationTimestamp session)\<rparr>)\<rparr>"

definition validateRequestSessionInfo ::
  "Env \<Rightarrow> Settings \<Rightarrow> RequestSessionInfo \<Rightarrow> Cloud \<Rightarrow> Validation \<times> Cloud" where
  "validateRequestSessionInfo env settings requestSessionInfo cloud =
     (case loadSession env settings (sessionId requestSessionInfo) cloud of
        (None, cloud') \<Rightarrow>
          (\<lparr>success = False,
            error = Some ''No active session found. Use 'mode=checkauth' to start a new session.''\<rparr>,
           cloud')
      | (Some storedSession, cloud') \<Rightarrow>
          if csrfProtection settings \<and> csrfToken requestSessionInfo \<noteq> csrfToken storedSession
          then (\<lparr>success = False, error = Some ''Invalid CSRF token.''\<rparr>, cloud')
          else (\<lparr>success = True, error = None\<rparr>, cloud'))"

text \<open>
  Step A. The sweep and the save are started together and both awaited; the model runs
  the sweep first (\<open>checkauth_sweep_save_order\<close> below shows the other order gives the
  same store).
\<close>

definition newSession :: "Env \<Rightarrow> ExchangeSession" where
  "newSession env =
     \<lparr>sessionId = Some (uuidv4 env 0),
      csrfToken = uuidv4 env 1,
      expirationTimestamp = utc env + 1000 * exchangeSessionDurationSeconds\<rparr>"

definition checkauth :: "Env \<Rightarrow> Settings \<Rightarrow> BasicCredentials \<Rightarrow> Cloud \<Rightarrow> string \<times> Cloud" where
  "checkauth env settings credentials cloud =
     (if username credentials \<noteq> username settings \<or> password credentials \<noteq> password settings
      then (failureResult (Some ''Unauthorized''), cloud)
      else
        let session = newSession env;
            cloud' = saveSession settings session (deleteExpiredSessions env settings cloud)
        in (result [''success'',
                    sessionIdCookieName settings,
                    template (sessionId session),
                    csrfTokenName settings @ ''='' @ csrfToken session,
                    ''timestamp='' @ numberToString (Math_round_toSeconds (utc env))],
            cloud'))"

text \<open>Step B.\<close>

definition init :: "Settings \<Rightarrow> string" where
  "init settings =
     result [''zip='' @ (if zip_flag settings then ''yes'' else ''no''),
             ''file_limit='' @ numberToString (fileSizeLimit settings)]"

text \<open>Step C, for catalog files and for reports.\<close>

definition file_step :: "Env \<Rightarrow> string option \<Rightarrow> Buffer option \<Rightarrow> Cloud \<Rightarrow> string \<times> Cloud" where
  "file_step env filename requestBody cloud =
     (if \<not> truthy filename then (failureResult (Some ''Filename is empty.''), cloud)
      else case requestBody of
        None \<Rightarrow> (failureResult (Some ''Request body is undefined''), cloud)
      | Some body \<Rightarrow>
          let f = the filename in
          if startsWith f ''import_files''
          then (''success'',
                saveToStorage ''1c-exchange-files'' (posix_dirname f) [] (posix_basename f) body cloud)
          else (''success'',
                saveToStorage ''1c-exchange-catalog'' []
                  (toFormat env ''yyyy-MM-dd_HH-mm-ss-SSSZZZ'') f body cloud))"

definition fileReport :: "string option \<Rightarrow> Buffer option \<Rightarrow> Cloud \<Rightarrow> string \<times> Cloud" where
  "fileReport filename requestBody cloud =
     (if \<not> truthy filename then (failureResult (Some ''Filename is empty.''), cloud)
      else case requestBody of
        None \<Rightarrow> (failureResult (Some ''Request body is undefined''), cloud)
      | Some body \<Rightarrow>
          let f = the filename in
          if startsWith f ''import_files''
          then (''success'',
                saveToStorage ''1c-exchange-report'' (posix_dirname f) [] (posix_basename f) body cloud)
          else (''success'',
                saveToStorage ''1c-exchange-report'' [] [] f body cloud))"

text \<open>Step D.\<close>

definition import_step :: "string option \<Rightarrow> string" where
  "import_step filename =
     (if \<not> truthy filename then failureResult (Some ''Filename is empty.'') else ''success'')"

text \<open>The dispatcher. A missing request is the thrown \<open>Error\<close>.\<close>

definition unsupportedType :: "string option \<Rightarrow> string" where
  "unsupportedType t =
     ''Parameter type '' @ [CHR 0x22] @ template t @ [CHR 0x22] @
     '' is not supported. Supported parameters: catalog, report''"

definition unsupportedMode :: "string option \<Rightarrow> string option \<Rightarrow> string" where
  "unsupportedMode t m =
     ''Type '' @ [CHR 0x27] @ template t @ [CHR 0x27] @ '' and mode '' @
     [CHR 0x27] @ template m @ [CHR 0x27] @ '' are not supported.''"

definition main :: "Env \<Rightarrow> Settings \<Rightarrow> Request option \<Rightarrow> Cloud \<Rightarrow> (error + string) \<times> Cloud" where
  "main env settings parameters_request cloud =
     (case parameters_request of
        None \<Rightarrow> (Inl (Error ''Cloud Function parameters.request not set.''), cloud)
      | Some request \<Rightarrow>
          let type = query_type request in
          if type \<noteq> Some ''catalog'' \<and> type \<noteq> Some ''report''
          then (Inr (failureResult (Some (unsupportedType type))), cloud)
          else
            let mode = query_mode request in
            if mode = Some ''checkauth''
            then (case checkauth env settings (getBasicCredentials request) cloud of
                    (r, c) \<Rightarrow> (Inr r, c))
            else
              case validateRequestSessionInfo env settings
                     (getRequestSessionInfo settings request) cloud of
                (sessionValidation, cloud') \<Rightarrow>
                  if \<not> success sessionValidation
                  then (Inr (failureResult (error sessionValidation)), cloud')
                  else if mode = Some ''init'' then (Inr (init settings), cloud')
                  else
                    let filename = query_filename request in
                    if mode = Some ''file'' \<and> type = Some ''catalog''
                    then (case file_step env filename (rawBody request) cloud' of
                            (r, c) \<Rightarrow> (Inr r, c))
                    else if mode = Some ''file'' \<and> type = Some ''report''
                    then (case fileReport filename (rawBody request) cloud' of
                            (r, c) \<Rightarrow> (Inr r, c))
                    else if mode = Some ''import'' then (Inr (import_step filename), cloud')
                    else (Inr (failureResult (Some (unsupportedMode type mode))), cloud'))"

section \<open>Active sessions\<close>

text \<open>
  A session id resolves to an active stored session when it is a non-empty string, a
  document is stored under it, and the document's expiration lies after the current time.
\<close>

definition activeSession :: "Env \<Rightarrow> Settings \<Rightarrow> Cloud \<Rightarrow> string option \<Rightarrow> bool" where
  "activeSession env settings cloud sid =
     (truthy sid \<and>
      (case firestore cloud (docPath settings (the sid)) of
         None \<Rightarrow> False
       | Some d \<Rightarrow> (case storedExpiration d of None \<Rightarrow> False | Some t \<Rightarrow> utc env < t)))"

text \<open>
  The reading of ``starts with the path segment \<open>import_files\<close>'': the text before the
  first slash is \<open>import_files\<close>.
\<close>

definition firstSegment :: "string \<Rightarrow> string" where
  "firstSegment f = takeWhile (\<lambda>c. \<not> isSlash c) f"

text \<open>
  A path that normalisation leaves alone: not empty, and no segment between slashes is
  empty, \<open>.\<close> or \<open>..\<close> (so it neither starts nor ends with a slash).
\<close>

definition cleanPath :: "string \<Rightarrow> bool" where
  "cleanPath f =
     (f \<noteq> [] \<and> (\<forall>s \<in> set (splitSlash f). s \<noteq> [] \<and> s \<noteq> ''.'' \<and> s \<noteq> ''..''))"

section \<open>A concrete deployment\<close>

text \<open>
  The settings of the scenario of the specification (user \<open>x\<close>, password \<open>y\<close>), with a
  session duration of two hours loaded into the settings and CSRF protection switched
  on; a clock reading of 2020-11-02 06:53:20 UTC; a store with one live and one expired
  session.
\<close>

definition settings0 :: Settings where
  "settings0 =
     \<lparr>username = ''x'', password = ''y'', zip_flag = False, fileSizeLimit = 9437184,
      sessionDurationSeconds = 7200, sessionIdCookieName = ''sessionId'',
      csrfProtection = True, csrfTokenName = ''csrfToken'',
      sessionsStoragePath = ''/settings/site/exchange1cSessions''\<rparr>"

definition env0 :: Env where
  "env0 =
     \<lparr>utc = 1604300000000,
      toFormat = (\<lambda>fmt. ''2020-11-02_06-53-20-000+0000''),
      uuidv4 = (\<lambda>n. if n = 0 then ''1b9d6bcd'' else ''9c5b94b1'')\<rparr>"

definition liveDoc :: ExchangeSessionStoredInFirestore where
  "liveDoc = \<lparr>sessionId = Some ''live'', csrfToken = ''tok'', storedExpiration = Some 1604300001000\<rparr>"

definition oldDoc :: ExchangeSessionStoredInFirestore where
  "oldDoc = \<lparr>sessionId = Some ''old'', csrfToken = ''kot'', storedExpiration = Some 1604300000000\<rparr>"

definition cloud0 :: Cloud where
  "cloud0 =
     \<lparr>firestore = [''/settings/site/exchange1cSessions/live'' \<mapsto> liveDoc,
                   ''/settings/site/exchange1cSessions/old'' \<mapsto> oldDoc],
      storage = []\<rparr>"

section \<open>Basic facts\<close>

lemma truthy_Some [simp]: "truthy (Some s) = (s \<noteq> [])"
  by (simp add: truthy_def)

lemma truthy_None [simp]: "\<not> truthy None"
  by (simp add: truthy_def)

lemma failureResult_Some: "failureResult (Some m) = ''failure'' @ newline @ m"
  by (simp add: failureResult_def result_def)

lemma loadSession_active:
  assumes "truthy sid"
    and "firestore cloud (docPath settings (the sid)) = Some d"
    and "storedExpiration d = Some t"
    and "utc env < t"
  shows "loadSession env settings sid cloud =
           (Some \<lparr>sessionId = sessionId d, csrfToken = csrfToken d, expirationTimestamp = t\<rparr>, cloud)"
  using assms by (simp add: loadSession_def)

lemma loadSession_inactive:
  assumes "\<not> activeSession env settings cloud sid"
  shows "fst (loadSession env settings sid cloud) = None"
  using assms
  by (auto simp: loadSession_def activeSession_def Let_def split: option.splits)

lemma loadSession_storage [simp]:
  "storage (snd (loadSession env settings sid cloud)) = storage cloud"
  by (auto simp: loadSession_def Let_def split: option.splits)

section \<open>Session store\<close>

text \<open>
  C4. \<open>loadSession\<close> never returns a session whose expiration is at or before the current
  time. An empty or missing session id, and an id with no stored document, give no
  session and leave the store as it is; an expired document gives no session and is
  deleted from the store by the lookup.
\<close>

theorem loadSession_lazy_expiry:
  "(\<forall>s. fst (loadSession env settings sid cloud) = Some s \<longrightarrow> utc env < expirationTimestamp s)
   \<and> (\<not> truthy sid \<longrightarrow> loadSession env settings sid cloud = (None, cloud))
   \<and> (truthy sid \<and> firestore cloud (docPath settings (the sid)) = None \<longrightarrow>
        loadSession env settings sid cloud = (None, cloud))
   \<and> (\<forall>d t. truthy sid \<and> firestore cloud (docPath settings (the sid)) = Some d
          \<and> storedExpiration d = Some t \<and> t \<le> utc env \<longrightarrow>
        loadSession env settings sid cloud =
          (None, cloud\<lparr>firestore := (firestore cloud)(docPath settings (the sid) := None)\<rparr>))"
  by (auto simp: loadSession_def Let_def split: option.splits if_splits)

theorem loadSession_lazy_expiry_witness:
  "fst (loadSession env0 settings0 (Some ''live'') cloud0) \<noteq> None
   \<and> utc env0 < expirationTimestamp (the (fst (loadSession env0 settings0 (Some ''live'') cloud0)))
   \<and> loadSession env0 settings0 (Some []) cloud0 = (None, cloud0)
   \<and> loadSession env0 settings0 None cloud0 = (None, cloud0)
   \<and> loadSession env0 settings0 (Some ''gone'') cloud0 = (None, cloud0)
   \<and> fst (loadSession env0 settings0 (Some ''old'') cloud0) = None
   \<and> firestore (snd (loadSession env0 settings0 (Some ''old'') cloud0))
        ''/settings/site/exchange1cSessions/old'' = None"
proof -
  have live: "fst (loadSession env0 settings0 (Some ''live'') cloud0) =
      Some \<lparr>sessionId = Some ''live'', csrfToken = ''tok'', expirationTimestamp = 1604300001000\<rparr>"
    by (simp add: loadSession_def env0_def settings0_def cloud0_def docPath_def liveDoc_def)
  have old: "truthy (Some ''old'')
      \<and> firestore cloud0 (docPath settings0 (the (Some ''old''))) = Some oldDoc
      \<and> storedExpiration oldDoc = Some 1604300000000 \<and> 1604300000000 \<le> utc env0"
    by (simp add: env0_def settings0_def cloud0_def docPath_def oldDoc_def)
  have gone: "truthy (Some ''gone'')
      \<and> firestore cloud0 (docPath settings0 (the (Some ''gone''))) = None"
    by (simp add: settings0_def cloud0_def docPath_def)
  show ?thesis
    using loadSession_lazy_expiry [of env0 settings0 "Some ''live''" cloud0]
      loadSession_lazy_expiry [of env0 settings0 "Some []" cloud0]
      loadSession_lazy_expiry [of env0 settings0 None cloud0]
      loadSession_lazy_expiry [of env0 settings0 "Some ''gone''" cloud0]
      loadSession_lazy_expiry [of env0 settings0 "Some ''old''" cloud0]
      live old gone
    by (simp add: docPath_def settings0_def)
qed

section \<open>Session validation\<close>

text \<open>
  C5. The CSRF token comparison is enforced exactly when \<open>csrfProtection\<close> is enabled.
  Against an active session: with protection on, a request token that differs from the
  stored one is invalid with the error \<open>Invalid CSRF token.\<close>; with protection off,
  every request token (the empty one of an absent \<open>sessid\<close> included) validates; and in
  general validation succeeds if and only if protection is off or the tokens agree.
\<close>

theorem csrf_enforced_iff_protection:
  assumes "truthy sid"
    and "firestore cloud (docPath settings (the sid)) = Some d"
    and "storedExpiration d = Some t"
    and "utc env < t"
  shows "(csrfProtection settings \<and> token \<noteq> csrfToken d \<longrightarrow>
            validateRequestSessionInfo env settings \<lparr>sessionId = sid, csrfToken = token\<rparr> cloud =
              (\<lparr>success = False, error = Some ''Invalid CSRF token.''\<rparr>, cloud))
       \<and> (\<not> csrfProtection settings \<longrightarrow>
            validateRequestSessionInfo env settings \<lparr>sessionId = sid, csrfToken = token\<rparr> cloud =
              (\<lparr>success = True, error = None\<rparr>, cloud))
       \<and> (success (fst (validateRequestSessionInfo env settings
                           \<lparr>sessionId = sid, csrfToken = token\<rparr> cloud))
            \<longleftrightarrow> (csrfProtection settings \<longrightarrow> token = csrfToken d))"
  using loadSession_active [OF assms]
  by (simp add: validateRequestSessionInfo_def)

theorem csrf_enforced_iff_protection_witness:
  "truthy (Some ''live'')
   \<and> firestore cloud0 (docPath settings0 (the (Some ''live''))) = Some liveDoc
   \<and> storedExpiration liveDoc = Some 1604300001000
   \<and> utc env0 < 1604300001000
   \<and> validateRequestSessionInfo env0 settings0 \<lparr>sessionId = Some ''live'', csrfToken = []\<rparr> cloud0 =
       (\<lparr>success = False, error = Some ''Invalid CSRF token.''\<rparr>, cloud0)
   \<and> validateRequestSessionInfo env0 (settings0\<lparr>csrfProtection := False\<rparr>)
         \<lparr>sessionId = Some ''live'', csrfToken = []\<rparr> cloud0 =
       (\<lparr>success = True, error = None\<rparr>, cloud0)
   \<and> success (fst (validateRequestSessionInfo env0 settings0
         \<lparr>sessionId = Some ''live'', csrfToken = ''tok''\<rparr> cloud0))"
proof -
  have h1: "truthy (Some ''live'')" by simp
  have h2: "firestore cloud0 (docPath settings0 (the (Some ''live''))) = Some liveDoc"
    by (simp add: cloud0_def settings0_def docPath_def)
  have h2': "firestore cloud0 (docPath (settings0\<lparr>csrfProtection := False\<rparr>) (the (Some ''live'')))
      = Some liveDoc"
    by (simp add: cloud0_def settings0_def docPath_def)
  have h3: "storedExpiration liveDoc = Some 1604300001000" by (simp add: liveDoc_def)
  have h4: "utc env0 < 1604300001000" by (simp add: env0_def)
  have c: "csrfProtection settings0" "\<not> csrfProtection (settings0\<lparr>csrfProtection := False\<rparr>)"
    "csrfToken liveDoc = ''tok''"
    by (simp_all add: settings0_def liveDoc_def)
  show ?thesis
    using csrf_enforced_iff_protection [OF h1 h2 h3 h4, of "[]"]
      csrf_enforced_iff_protection [OF h1 h2' h3 h4, of "[]"]
      csrf_enforced_iff_protection [OF h1 h2 h3 h4, of "''tok''"]
      h1 h2 h3 h4 c
    by simp
qed

text \<open>
  C2 as the specification words it gives the error text with \<open>'checkauth'\<close>. The handler's
  text reads \<open>'mode=checkauth'\<close>: already for a request without a session id, which
  resolves to no session, the error is not the text of the claim.
\<close>

theorem no_active_session_text_counterexample:
  "\<not> activeSession env0 settings0 cloud0 None
   \<and> error (fst (validateRequestSessionInfo env0 settings0
               \<lparr>sessionId = None, csrfToken = []\<rparr> cloud0))
       \<noteq> Some ''No active session found. Use 'checkauth' to start a new session.''"
  by (simp add: activeSession_def validateRequestSessionInfo_def loadSession_def)

text \<open>
  C2, amended. For every request whose session id does not resolve to an active stored
  session (absent, empty, unknown, or expired), validation is invalid with exactly the
  error \<open>No active session found. Use 'mode=checkauth' to start a new session.\<close>, and the
  dispatcher, for a supported type and a mode other than \<open>checkauth\<close>, returns the
  failure result carrying that message.
\<close>

theorem no_active_session_failure:
  assumes "\<not> activeSession env settings cloud sid"
  shows "fst (validateRequestSessionInfo env settings \<lparr>sessionId = sid, csrfToken = token\<rparr> cloud) =
           \<lparr>success = False,
            error = Some ''No active session found. Use 'mode=checkauth' to start a new session.''\<rparr>
       \<and> ((query_type request = Some ''catalog'' \<or> query_type request = Some ''report'')
            \<and> query_mode request \<noteq> Some ''checkauth''
            \<and> sessionId (getRequestSessionInfo settings request) = sid \<longrightarrow>
          fst (main env settings (Some request) cloud) =
            Inr (''failure'' @ newline @
                 ''No active session found. Use 'mode=checkauth' to start a new session.''))"
proof -
  have v: "fst (validateRequestSessionInfo env settings \<lparr>sessionId = sid, csrfToken = tok\<rparr> cloud) =
      \<lparr>success = False,
       error = Some ''No active session found. Use 'mode=checkauth' to start a new session.''\<rparr>"
    for tok
    using loadSession_inactive [OF assms]
    by (cases "loadSession env settings sid cloud") (auto simp: validateRequestSessionInfo_def)
  have "fst (main env settings (Some request) cloud) =
          Inr (''failure'' @ newline @
               ''No active session found. Use 'mode=checkauth' to start a new session.'')"
    if t: "query_type request = Some ''catalog'' \<or> query_type request = Some ''report''"
      and m: "query_mode request \<noteq> Some ''checkauth''"
      and s: "sessionId (getRequestSessionInfo settings request) = sid"
  proof -
    have eq: "getRequestSessionInfo settings request =
        \<lparr>sessionId = sid, csrfToken = csrfToken (getRequestSessionInfo settings request)\<rparr>"
      using s by (cases "getRequestSessionInfo settings request") simp
    obtain val c where vc: "validateRequestSessionInfo env settings
        (getRequestSessionInfo settings request) cloud = (val, c)"
      by (cases "validateRequestSessionInfo env settings
        (getRequestSessionInfo settings request) cloud") blast
    have val: "val = \<lparr>success = False,
       error = Some ''No active session found. Use 'mode=checkauth' to start a new session.''\<rparr>"
      using v [of "csrfToken (getRequestSessionInfo settings request)"] eq vc
      by (metis fst_conv)
    show ?thesis
      using t m vc val
      by (auto simp: main_def Let_def failureResult_Some)
  qed
  with v show ?thesis by blast
qed

theorem no_active_session_failure_witness:
  "\<not> activeSession env0 settings0 cloud0 (Some ''old'')
   \<and> fst (validateRequestSessionInfo env0 settings0 \<lparr>sessionId = Some ''old'', csrfToken = ''kot''\<rparr> cloud0) =
       \<lparr>success = False,
        error = Some ''No active session found. Use 'mode=checkauth' to start a new session.''\<rparr>
   \<and> fst (main env0 settings0
       (Some \<lparr>query_type = Some ''catalog'', query_mode = Some ''init'', query_filename = None,
              query_sessid = Some ''kot'', cookies = Some [(''sessionId'', ''old'')], auth = None,
              rawBody = None\<rparr>) cloud0) =
       Inr (''failure'' @ newline @
            ''No active session found. Use 'mode=checkauth' to start a new session.'')"
proof -
  have h: "\<not> activeSession env0 settings0 cloud0 (Some ''old'')"
    by (simp add: activeSession_def cloud0_def settings0_def docPath_def oldDoc_def env0_def)
  show ?thesis
    using no_active_session_failure [OF h, of "''kot''"
        "\<lparr>query_type = Some ''catalog'', query_mode = Some ''init'', query_filename = None,
          query_sessid = Some ''kot'', cookies = Some [(''sessionId'', ''old'')], auth = None,
          rawBody = None\<rparr>"] h
    by (simp add: getRequestSessionInfo_def settings0_def)
qed

section \<open>Authentication\<close>

text \<open>
  C6. For every credentials pair that is not exactly the configured user name and
  password (empty values included), \<open>checkauth\<close> returns the two lines \<open>failure\<close> and
  \<open>Unauthorized\<close>, and neither the session store nor anything else is changed.
\<close>

theorem checkauth_unauthorized:
  assumes "(username credentials, password credentials) \<noteq> (username settings, password settings)"
  shows "checkauth env settings credentials cloud =
           (''failure'' @ [CHR 0x0A] @ ''Unauthorized'', cloud)"
  using assms by (auto simp: checkauth_def failureResult_Some newline_def)

theorem checkauth_unauthorized_witness:
  "(username \<lparr>username = ''x'', password = ''z''\<rparr>, password \<lparr>username = ''x'', password = ''z''\<rparr>)
      \<noteq> (username settings0, password settings0)
   \<and> checkauth env0 settings0 \<lparr>username = ''x'', password = ''z''\<rparr> cloud0 =
       (''failure'' @ [CHR 0x0A] @ ''Unauthorized'', cloud0)
   \<and> checkauth env0 settings0 \<lparr>username = [], password = []\<rparr> cloud0 =
       (''failure'' @ [CHR 0x0A] @ ''Unauthorized'', cloud0)"
proof -
  have h1: "(username \<lparr>username = ''x'', password = ''z''\<rparr>, password \<lparr>username = ''x'', password = ''z''\<rparr>)
      \<noteq> (username settings0, password settings0)"
    by (simp add: settings0_def)
  have h2: "(username \<lparr>username = [], password = []\<rparr>, password \<lparr>username = [], password = []\<rparr>)
      \<noteq> (username settings0, password settings0)"
    by (simp add: settings0_def)
  show ?thesis
    using checkauth_unauthorized [OF h1, of env0 cloud0]
      checkauth_unauthorized [OF h2, of env0 cloud0] h1
    by simp
qed

lemma sweep_save_commute:
  assumes "utc env < expirationTimestamp session"
  shows "saveSession settings session (deleteExpiredSessions env settings cloud) =
         deleteExpiredSessions env settings (saveSession settings session cloud)"
  using assms
  by (auto simp: saveSession_def deleteExpiredSessions_def fun_eq_iff split: option.splits)

lemma newSession_not_expired: "utc env < expirationTimestamp (newSession env)"
  by (simp add: newSession_def exchangeSessionDurationSeconds_def)

lemma checkauth_sweep_save_order:
  "saveSession settings (newSession env) (deleteExpiredSessions env settings cloud) =
   deleteExpiredSessions env settings (saveSession settings (newSession env) cloud)"
  using newSession_not_expired by (rule sweep_save_commute)

lemma checkauth_persists_session:
  assumes "username credentials = username settings"
    and "password credentials = password settings"
  shows "firestore (snd (checkauth env settings credentials cloud)) (docPath settings (uuidv4 env 0)) =
           Some \<lparr>sessionId = Some (uuidv4 env 0), csrfToken = uuidv4 env 1,
                 storedExpiration = Some (utc env + 3600000)\<rparr>"
  using assms
  by (simp add: checkauth_def Let_def saveSession_def newSession_def template_def
      exchangeSessionDurationSeconds_def)

lemma Math_round_toSeconds_bounds:
  "1000 * Math_round_toSeconds ms \<le> ms + 500 \<and> ms + 500 < 1000 * Math_round_toSeconds ms + 1000"
proof -
  have "ms + 500 = 1000 * ((ms + 500) div 1000) + (ms + 500) mod 1000"
    by simp
  moreover have "0 \<le> (ms + 500) mod 1000" "(ms + 500) mod 1000 < 1000"
    by simp_all
  ultimately show ?thesis
    unfolding Math_round_toSeconds_def by linarith
qed

lemma digits_chars: "set (digits n) \<subseteq> set ''0123456789''"
proof (induction n rule: digits.induct)
  case (1 n)
  have len: "length ''0123456789'' = 10" by simp
  show ?case
  proof (cases "n < 10")
    case True
    then have "''0123456789'' ! n \<in> set ''0123456789''"
      using len nth_mem by metis
    with True show ?thesis by (subst digits.simps) simp
  next
    case False
    have "n mod 10 < length ''0123456789''" by simp
    then have "''0123456789'' ! (n mod 10) \<in> set ''0123456789''"
      by (rule nth_mem)
    with False "1.IH" show ?thesis by (subst digits.simps) simp
  qed
qed

text \<open>
  C1. The claim: the persisted session expires at the time of issuance plus
  \<open>settings.sessionDurationSeconds\<close>. The handler adds its own field
  \<open>exchangeSessionDurationSeconds\<close> (3600) instead. With 7200 seconds loaded into the
  settings, a successful \<open>checkauth\<close> persists a session that expires one hour, not two
  hours, after issuance.
\<close>

theorem checkauth_expiration_uses_class_field:
  "sessionDurationSeconds settings0 = 7200
   \<and> fst (checkauth env0 settings0 \<lparr>username = ''x'', password = ''y''\<rparr> cloud0)
       \<noteq> ''failure'' @ [CHR 0x0A] @ ''Unauthorized''
   \<and> map_option storedExpiration
        (firestore (snd (checkauth env0 settings0 \<lparr>username = ''x'', password = ''y''\<rparr> cloud0))
           (docPath settings0 (uuidv4 env0 0))) =
       Some (Some (utc env0 + 1000 * 3600))
   \<and> utc env0 + 1000 * 3600 \<noteq> utc env0 + 1000 * sessionDurationSeconds settings0"
proof -
  have c: "username \<lparr>username = ''x'', password = ''y''\<rparr> = username settings0"
    "password \<lparr>username = ''x'', password = ''y''\<rparr> = password settings0"
    by (simp_all add: settings0_def)
  have "fst (checkauth env0 settings0 \<lparr>username = ''x'', password = ''y''\<rparr> cloud0)
       \<noteq> ''failure'' @ [CHR 0x0A] @ ''Unauthorized''"
    by (simp add: checkauth_def settings0_def Let_def result_def)
  moreover have "sessionDurationSeconds settings0 = 7200"
    by (simp add: settings0_def)
  ultimately show ?thesis
    using checkauth_persists_session [OF c, of env0 cloud0] by simp
qed

theorem checkauth_expiration_uses_class_field_witness:
  "map_option storedExpiration
     (firestore (snd (checkauth env0 settings0 \<lparr>username = ''x'', password = ''y''\<rparr> cloud0))
        ''/settings/site/exchange1cSessions/1b9d6bcd'') =
     Some (Some 1604303600000)
   \<and> (1604303600000 :: int) \<noteq> 1604300000000 + 1000 * 7200"
  using checkauth_expiration_uses_class_field
  by (simp add: env0_def settings0_def docPath_def)

text \<open>
  C9. For every successful \<open>checkauth\<close> call the result is exactly five lines joined by
  a newline: \<open>success\<close>, the configured cookie name, the generated session id,
  \<open><csrfTokenName>=<csrfToken>\<close>, and \<open>timestamp=\<close> followed, with no space before
  \<open>timestamp\<close>, by the current time rounded to whole epoch seconds in decimal digits.
  The session id and token of the lines are those of the session persisted under that id.
\<close>

theorem checkauth_success_lines:
  assumes "username credentials = username settings"
    and "password credentials = password settings"
  shows "fst (checkauth env settings credentials cloud) =
           ''success'' @ [CHR 0x0A] @
           sessionIdCookieName settings @ [CHR 0x0A] @
           uuidv4 env 0 @ [CHR 0x0A] @
           csrfTokenName settings @ ''='' @ uuidv4 env 1 @ [CHR 0x0A] @
           ''timestamp='' @ numberToString (Math_round_toSeconds (utc env))
       \<and> map_option sessionId
            (firestore (snd (checkauth env settings credentials cloud))
               (docPath settings (uuidv4 env 0))) = Some (Some (uuidv4 env 0))
       \<and> map_option csrfToken
            (firestore (snd (checkauth env settings credentials cloud))
               (docPath settings (uuidv4 env 0))) = Some (uuidv4 env 1)
       \<and> 1000 * Math_round_toSeconds (utc env) \<le> utc env + 500
       \<and> utc env + 500 < 1000 * Math_round_toSeconds (utc env) + 1000
       \<and> (0 \<le> utc env \<longrightarrow>
            set (numberToString (Math_round_toSeconds (utc env))) \<subseteq> set ''0123456789'')"
proof -
  have lines: "fst (checkauth env settings credentials cloud) =
           ''success'' @ [CHR 0x0A] @
           sessionIdCookieName settings @ [CHR 0x0A] @
           uuidv4 env 0 @ [CHR 0x0A] @
           csrfTokenName settings @ ''='' @ uuidv4 env 1 @ [CHR 0x0A] @
           ''timestamp='' @ numberToString (Math_round_toSeconds (utc env))"
    using assms
    by (simp add: checkauth_def Let_def result_def newline_def newSession_def template_def)
  have secs: "1000 * Math_round_toSeconds (utc env) \<le> utc env + 500"
    "utc env + 500 < 1000 * Math_round_toSeconds (utc env) + 1000"
    using Math_round_toSeconds_bounds [of "utc env"] by simp_all
  have digs: "set (numberToString (Math_round_toSeconds (utc env))) \<subseteq> set ''0123456789''"
    if "0 \<le> utc env"
  proof -
    have "0 \<le> Math_round_toSeconds (utc env)"
      using that by (simp add: Math_round_toSeconds_def pos_imp_zdiv_nonneg_iff)
    then show ?thesis
      using digits_chars [of "nat (Math_round_toSeconds (utc env))"]
      by (simp add: numberToString_def)
  qed
  show ?thesis
    using lines secs digs checkauth_persists_session [OF assms, of env cloud]
    by simp
qed

theorem checkauth_success_lines_witness:
  "username \<lparr>username = ''x'', password = ''y''\<rparr> = username settings0
   \<and> password \<lparr>username = ''x'', password = ''y''\<rparr> = password settings0
   \<and> 0 \<le> utc env0
   \<and> fst (checkauth env0 settings0 \<lparr>username = ''x'', password = ''y''\<rparr> cloud0) =
        ''success'' @ [CHR 0x0A] @ ''sessionId'' @ [CHR 0x0A] @ ''1b9d6bcd'' @ [CHR 0x0A] @
        ''csrfToken=9c5b94b1'' @ [CHR 0x0A] @ ''timestamp=1604300000''"
proof -
  have c: "username \<lparr>username = ''x'', password = ''y''\<rparr> = username settings0"
    "password \<lparr>username = ''x'', password = ''y''\<rparr> = password settings0"
    by (simp_all add: settings0_def)
  have n: "numberToString (Math_round_toSeconds (utc env0)) = ''1604300000''"
    by (simp add: numberToString_def Math_round_toSeconds_def env0_def digits.simps)
  have e: "0 \<le> utc env0" "uuidv4 env0 0 = ''1b9d6bcd''" "uuidv4 env0 1 = ''9c5b94b1''"
    "sessionIdCookieName settings0 = ''sessionId''" "csrfTokenName settings0 = ''csrfToken''"
    by (simp_all add: env0_def settings0_def)
  show ?thesis
    using checkauth_success_lines [OF c, of env0 cloud0] c n e
    by simp
qed

section \<open>Dispatch\<close>

lemma getRequestSessionInfo_fields:
  "getRequestSessionInfo settings request =
     \<lparr>sessionId = (case cookies request of
                     None \<Rightarrow> Some []
                   | Some cs \<Rightarrow> map_of cs (sessionIdCookieName settings)),
      csrfToken = (case query_sessid request of None \<Rightarrow> [] | Some s \<Rightarrow> s)\<rparr>"
  by (cases "query_sessid request") (simp_all add: getRequestSessionInfo_def)

lemma validateRequestSessionInfo_storage [simp]:
  "storage (snd (validateRequestSessionInfo env settings info cloud)) = storage cloud"
proof (cases "loadSession env settings (sessionId info) cloud")
  case (Pair r c)
  have "storage c = storage cloud"
    using loadSession_storage [of env settings "sessionId info" cloud] Pair by simp
  with Pair show ?thesis
    by (cases r) (simp_all add: validateRequestSessionInfo_def)
qed

text \<open>
  C3. \<open>checkauth\<close> is the only mode dispatched without session validation. For every
  request with a supported type: in mode \<open>checkauth\<close> the dispatcher's outcome is that of
  credential checking on the untouched store, whatever cookie and \<open>sessid\<close> the request
  carries; in every other mode the session id of the cookie and the token of the query
  are validated first, and when validation is invalid the dispatcher returns the failure
  result with the validator's error, with the store as validation left it and no upload
  made: \<open>init\<close>, \<open>file\<close> and \<open>import\<close> are not reached.
\<close>

theorem checkauth_only_mode_without_validation:
  assumes "query_type request = Some ''catalog'' \<or> query_type request = Some ''report''"
  shows "(query_mode request = Some ''checkauth'' \<longrightarrow>
            main env settings (Some request) cloud =
              (Inr (fst (checkauth env settings (getBasicCredentials request) cloud)),
               snd (checkauth env settings (getBasicCredentials request) cloud))
            \<and> main env settings (Some (request\<lparr>cookies := cs, query_sessid := tok\<rparr>)) cloud =
              main env settings (Some request) cloud)
       \<and> (query_mode request \<noteq> Some ''checkauth''
            \<and> \<not> success (fst (validateRequestSessionInfo env settings
                  \<lparr>sessionId = (case cookies request of
                                  None \<Rightarrow> Some []
                                | Some cs \<Rightarrow> map_of cs (sessionIdCookieName settings)),
                   csrfToken = (case query_sessid request of None \<Rightarrow> [] | Some s \<Rightarrow> s)\<rparr>
                  cloud)) \<longrightarrow>
            main env settings (Some request) cloud =
              (Inr (failureResult (error (fst (validateRequestSessionInfo env settings
                  \<lparr>sessionId = (case cookies request of
                                  None \<Rightarrow> Some []
                                | Some cs \<Rightarrow> map_of cs (sessionIdCookieName settings)),
                   csrfToken = (case query_sessid request of None \<Rightarrow> [] | Some s \<Rightarrow> s)\<rparr>
                  cloud)))),
               snd (validateRequestSessionInfo env settings
                  \<lparr>sessionId = (case cookies request of
                                  None \<Rightarrow> Some []
                                | Some cs \<Rightarrow> map_of cs (sessionIdCookieName settings)),
                   csrfToken = (case query_sessid request of None \<Rightarrow> [] | Some s \<Rightarrow> s)\<rparr>
                  cloud))
            \<and> storage (snd (main env settings (Some request) cloud)) = storage cloud)"
proof -
  have a: "main env settings (Some request) cloud =
              (Inr (fst (checkauth env settings (getBasicCredentials request) cloud)),
               snd (checkauth env settings (getBasicCredentials request) cloud))
            \<and> main env settings (Some (request\<lparr>cookies := cs, query_sessid := tok\<rparr>)) cloud =
              main env settings (Some request) cloud"
    if "query_mode request = Some ''checkauth''"
    using assms that
    by (auto simp: main_def Let_def getBasicCredentials_def split: prod.splits)
  have b: "main env settings (Some request) cloud =
              (Inr (failureResult (error (fst (validateRequestSessionInfo env settings
                  (getRequestSessionInfo settings request) cloud)))),
               snd (validateRequestSessionInfo env settings
                  (getRequestSessionInfo settings request) cloud))
            \<and> storage (snd (main env settings (Some request) cloud)) = storage cloud"
    if "query_mode request \<noteq> Some ''checkauth''"
      and "\<not> success (fst (validateRequestSessionInfo env settings
                  (getRequestSessionInfo settings request) cloud))"
  proof -
    have "main env settings (Some request) cloud =
              (Inr (failureResult (error (fst (validateRequestSessionInfo env settings
                  (getRequestSessionInfo settings request) cloud)))),
               snd (validateRequestSessionInfo env settings
                  (getRequestSessionInfo settings request) cloud))"
      using assms that by (auto simp: main_def Let_def split: prod.splits)
    then show ?thesis by simp
  qed
  show ?thesis
    using a b unfolding getRequestSessionInfo_fields by blast
qed

theorem checkauth_only_mode_without_validation_witness:
  "main env0 settings0
     (Some \<lparr>query_type = Some ''report'', query_mode = Some ''checkauth'', query_filename = None,
            query_sessid = None, cookies = None, auth = Some (''x'', ''z''), rawBody = None\<rparr>) cloud0 =
     (Inr (''failure'' @ newline @ ''Unauthorized''), cloud0)
   \<and> fst (main env0 settings0
     (Some \<lparr>query_type = Some ''catalog'', query_mode = Some ''file'',
            query_filename = Some ''import.xml'', query_sessid = Some ''bad'',
            cookies = Some [(''sessionId'', ''live'')], auth = None, rawBody = Some [1, 2]\<rparr>) cloud0) =
     Inr (''failure'' @ newline @ ''Invalid CSRF token.'')
   \<and> storage (snd (main env0 settings0
     (Some \<lparr>query_type = Some ''catalog'', query_mode = Some ''file'',
            query_filename = Some ''import.xml'', query_sessid = Some ''bad'',
            cookies = Some [(''sessionId'', ''live'')], auth = None, rawBody = Some [1, 2]\<rparr>) cloud0)) = []"
proof -
  let ?r1 = "\<lparr>query_type = Some ''report'', query_mode = Some ''checkauth'', query_filename = None,
            query_sessid = None, cookies = None, auth = Some (''x'', ''z''), rawBody = None\<rparr>"
  let ?r2 = "\<lparr>query_type = Some ''catalog'', query_mode = Some ''file'',
            query_filename = Some ''import.xml'', query_sessid = Some ''bad'',
            cookies = Some [(''sessionId'', ''live'')], auth = None, rawBody = Some [1, 2 :: 8 word]\<rparr>"
  have t1: "query_type ?r1 = Some ''catalog'' \<or> query_type ?r1 = Some ''report''" by simp
  have t2: "query_type ?r2 = Some ''catalog'' \<or> query_type ?r2 = Some ''report''" by simp
  have ca: "checkauth env0 settings0 (getBasicCredentials ?r1) cloud0 =
      (''failure'' @ newline @ ''Unauthorized'', cloud0)"
    by (simp add: checkauth_def getBasicCredentials_def settings0_def failureResult_Some)
  have v: "validateRequestSessionInfo env0 settings0
      \<lparr>sessionId = Some ''live'', csrfToken = ''bad''\<rparr> cloud0 =
      (\<lparr>success = False, error = Some ''Invalid CSRF token.''\<rparr>, cloud0)"
    by (simp add: validateRequestSessionInfo_def loadSession_def env0_def settings0_def
        cloud0_def docPath_def liveDoc_def)
  have st: "storage cloud0 = []" by (simp add: cloud0_def)
  show ?thesis
    using checkauth_only_mode_without_validation [OF t1, of env0 settings0 cloud0]
      checkauth_only_mode_without_validation [OF t2, of env0 settings0 cloud0]
      ca v st
    by (simp add: settings0_def failureResult_Some)
qed

lemma validateRequestSessionInfo_success_cloud:
  assumes "success (fst (validateRequestSessionInfo env settings info cloud))"
  shows "snd (validateRequestSessionInfo env settings info cloud) = cloud"
proof (cases "loadSession env settings (sessionId info) cloud")
  case (Pair r c)
  show ?thesis
  proof (cases r)
    case None
    with Pair assms show ?thesis by (simp add: validateRequestSessionInfo_def)
  next
    case (Some s)
    with Pair have "c = cloud"
      by (auto simp: loadSession_def Let_def split: option.splits if_splits)
    with Pair Some show ?thesis by (simp add: validateRequestSessionInfo_def)
  qed
qed

lemma main_file_mode:
  assumes "query_mode request = Some ''file''"
    and "success (fst (validateRequestSessionInfo env settings
                         (getRequestSessionInfo settings request) cloud))"
  shows "query_type request = Some ''catalog'' \<Longrightarrow>
           main env settings (Some request) cloud =
             (Inr (fst (file_step env (query_filename request) (rawBody request) cloud)),
              snd (file_step env (query_filename request) (rawBody request) cloud))"
    and "query_type request = Some ''report'' \<Longrightarrow>
           main env settings (Some request) cloud =
             (Inr (fst (fileReport (query_filename request) (rawBody request) cloud)),
              snd (fileReport (query_filename request) (rawBody request) cloud))"
proof -
  obtain v c where vc: "validateRequestSessionInfo env settings
      (getRequestSessionInfo settings request) cloud = (v, c)"
    by (cases "validateRequestSessionInfo env settings
      (getRequestSessionInfo settings request) cloud") blast
  have c: "c = cloud" and v: "success v"
    using validateRequestSessionInfo_success_cloud [OF assms(2)] assms(2) vc by simp_all
  show "query_type request = Some ''catalog'' \<Longrightarrow>
           main env settings (Some request) cloud =
             (Inr (fst (file_step env (query_filename request) (rawBody request) cloud)),
              snd (file_step env (query_filename request) (rawBody request) cloud))"
    using assms(1) vc c v by (simp add: main_def Let_def split: prod.splits)
  show "query_type request = Some ''report'' \<Longrightarrow>
           main env settings (Some request) cloud =
             (Inr (fst (fileReport (query_filename request) (rawBody request) cloud)),
              snd (fileReport (query_filename request) (rawBody request) cloud))"
    using assms(1) vc c v by (simp add: main_def Let_def split: prod.splits)
qed

section \<open>Paths\<close>

lemma splitSlash_nonempty [simp]: "splitSlash f \<noteq> []"
  by (induction f) (auto split: list.splits)

lemma join_Cons_Cons: "join sep ((c # s) # ss) = c # join sep (s # ss)"
  by (cases ss) simp_all

lemma join_splitSlash: "join ''/'' (splitSlash f) = f"
proof (induction f)
  case Nil
  show ?case by simp
next
  case (Cons c cs)
  obtain s ss where sp: "splitSlash cs = s # ss"
    by (cases "splitSlash cs") simp_all
  show ?case
    using Cons sp by (simp add: isSlash_def join_Cons_Cons)
qed

lemma normalizeSegments_clean:
  "\<forall>s \<in> set ss. s \<noteq> [] \<and> s \<noteq> ''.'' \<and> s \<noteq> ''..'' \<Longrightarrow> normalizeSegments b res ss = res @ ss"
  by (induction ss arbitrary: res) simp_all

lemma normalizeString_clean: "cleanPath f \<Longrightarrow> normalizeString f b = f"
  by (simp add: normalizeString_def cleanPath_def normalizeSegments_clean join_splitSlash)

lemma splitSlash_single: "splitSlash cs = [[]] \<Longrightarrow> cs = []"
  using join_splitSlash [of cs] by simp

lemma splitSlash_hd_slash: "isSlash c \<Longrightarrow> [] \<in> set (splitSlash (c # cs))"
  by simp

lemma splitSlash_last_slash: "f \<noteq> [] \<Longrightarrow> isSlash (last f) \<Longrightarrow> last (splitSlash f) = []"
proof (induction f)
  case Nil
  then show ?case by simp
next
  case (Cons c cs)
  show ?case
  proof (cases "cs = []")
    case True
    with Cons.prems show ?thesis by simp
  next
    case False
    then have "isSlash (last cs)" using Cons.prems(2) by simp
    with False have ih: "last (splitSlash cs) = []" by (rule Cons.IH)
    obtain s ss where sp: "splitSlash cs = s # ss"
      by (cases "splitSlash cs") simp_all
    have ss: "ss \<noteq> []"
    proof
      assume "ss = []"
      with ih sp have "splitSlash cs = [[]]" by simp
      then have "cs = []" by (rule splitSlash_single)
      with False show False by simp
    qed
    have "last (splitSlash (c # cs)) = last ss"
      unfolding splitSlash.simps sp using ss by simp
    moreover have "last (splitSlash cs) = last ss"
      unfolding sp using ss by simp
    ultimately show ?thesis using ih by simp
  qed
qed

lemma cleanPath_ends:
  assumes "cleanPath f"
  shows "\<not> isSlash (hd f)" and "\<not> isSlash (last f)"
proof -
  have ne: "f \<noteq> []" and seg: "[] \<notin> set (splitSlash f)"
    using assms unfolding cleanPath_def by blast+
  obtain c cs where f: "f = c # cs"
    using ne by (cases f) simp_all
  show "\<not> isSlash (hd f)"
  proof
    assume "isSlash (hd f)"
    then have "isSlash c" using f by simp
    then have "[] \<in> set (splitSlash (c # cs))" by (rule splitSlash_hd_slash)
    with seg f show False by simp
  qed
  show "\<not> isSlash (last f)"
  proof
    assume "isSlash (last f)"
    with ne have "last (splitSlash f) = []" by (rule splitSlash_last_slash)
    moreover have "last (splitSlash f) \<in> set (splitSlash f)"
      using splitSlash_nonempty by (rule last_in_set)
    ultimately show False using seg by simp
  qed
qed

lemma posix_normalize_clean: "cleanPath f \<Longrightarrow> posix_normalize f = f"
  using cleanPath_ends [of f]
  by (simp add: posix_normalize_def normalizeString_clean Let_def cleanPath_def)

lemma posix_join_root_clean: "cleanPath g \<Longrightarrow> posix_join [] g = g"
  by (simp add: posix_join_def posix_normalize_clean cleanPath_def)

lemma splitSlash_dot_prefix: "splitSlash (CHR ''.'' # CHR ''/'' # f) = ''.'' # splitSlash f"
  by (simp add: isSlash_def split: list.splits)

lemma posix_normalize_dot_prefix:
  assumes "cleanPath f"
  shows "posix_normalize (''./'' @ f) = f"
proof -
  have "normalizeString (''./'' @ f) True = f"
    using assms
    by (simp add: normalizeString_def splitSlash_dot_prefix normalizeSegments_clean
        join_splitSlash cleanPath_def del: splitSlash.simps)
  moreover have "last (''./'' @ f) = last f"
    using assms by (simp add: cleanPath_def)
  ultimately show ?thesis
    using assms cleanPath_ends(2) [OF assms]
    by (simp add: posix_normalize_def Let_def isSlash_def cleanPath_def del: splitSlash.simps)
qed

lemma posix_basename_clean:
  assumes "cleanPath f"
  shows "posix_basename f = rev (takeWhile (\<lambda>c. \<not> isSlash c) (rev f))"
proof -
  have "f \<noteq> []" using assms by (simp add: cleanPath_def)
  then obtain a l where r: "rev f = a # l" by (cases "rev f") simp_all
  have "a = last f" using r \<open>f \<noteq> []\<close> by (metis hd_rev list.sel(1))
  then have "\<not> isSlash a" using cleanPath_ends(2) [OF assms] by simp
  then have "dropWhile isSlash (rev f) = rev f"
    unfolding r by simp
  then show ?thesis by (simp add: posix_basename_def)
qed

lemma dirname_basename_clean:
  assumes "cleanPath f"
  shows "posix_join (posix_dirname f) (posix_basename f) = f"
proof -
  have ne: "f \<noteq> []" using assms by (simp add: cleanPath_def)
  have nh: "\<not> isSlash (hd f)" and nl: "\<not> isSlash (last f)"
    using cleanPath_ends [OF assms] by simp_all
  define b where "b = rev (takeWhile (\<lambda>c. \<not> isSlash c) (rev f))"
  define q where "q = dropWhile (\<lambda>c. \<not> isSlash c) (rev f)"
  have bn: "posix_basename f = b"
    using posix_basename_clean [OF assms] by (simp add: b_def)
  have split: "rev f = rev b @ q"
    by (simp add: b_def q_def)
  have bns: "\<forall>c \<in> set b. \<not> isSlash c"
    unfolding b_def using set_takeWhileD by fastforce
  have bne: "b \<noteq> []"
    using ne nl unfolding b_def by (cases "rev f") (simp_all add: last_rev hd_rev)
  show ?thesis
  proof (cases "q = []")
    case True
    then have fb: "f = b" using split by simp
    have "\<forall>c \<in> set (rev (tl f)). \<not> isSlash c"
      using bns fb ne list.set_sel(2) [of f] by auto
    then have "dropWhile (\<lambda>c. \<not> isSlash c) (dropWhile isSlash (rev (tl f))) = []"
      by (auto simp: dropWhile_eq_Nil_conv dest: set_dropWhileD)
    then have "posix_dirname f = ''.''"
      using ne nh by (simp add: posix_dirname_def Let_def)
    then show ?thesis
      using bn fb bne posix_normalize_dot_prefix [OF assms]
      by (simp add: posix_join_def)
  next
    case False
    then have "isSlash (hd q)"
      unfolding q_def using hd_dropWhile [of "\<lambda>c. \<not> isSlash c" "rev f"] by simp
    with False have q: "q = CHR ''/'' # tl q"
      by (cases q) (simp_all add: isSlash_def)
    define d where "d = rev (tl q)"
    have "f = rev (rev b @ q)"
      using split by (metis rev_rev_ident)
    also have "\<dots> = rev (tl q) @ ''/'' @ b"
      by (subst q) simp
    finally have f: "f = d @ ''/'' @ b"
      by (simp add: d_def)
    have dne: "d \<noteq> []"
      using f nh by (cases d) (simp_all add: isSlash_def)
    have tl: "rev (tl f) = rev b @ CHR ''/'' # rev (tl d)"
      using f dne by (cases d) simp_all
    have hb: "\<not> isSlash (hd (rev b))"
      using bns bne by (simp add: hd_rev)
    have d1: "dropWhile isSlash (rev (tl f)) = rev (tl f)"
      using tl hb bne by (cases "rev b") simp_all
    have d2: "dropWhile (\<lambda>c. \<not> isSlash c) (rev b @ CHR ''/'' # rev (tl d)) = CHR ''/'' # rev (tl d)"
      using bns by (simp add: dropWhile_append3 isSlash_def)
    have "posix_dirname f = take (Suc (length (tl d))) f"
      using ne nh d1 d2 tl by (simp add: posix_dirname_def Let_def)
    also have "Suc (length (tl d)) = length d" using dne by (cases d) simp_all
    also have "take (length d) f = d" using f by simp
    finally have dn: "posix_dirname f = d" .
    show ?thesis
      using dn bn dne bne f posix_normalize_clean [OF assms]
      by (simp add: posix_join_def)
  qed
qed

section \<open>Storage routing\<close>

text \<open>
  C8. In file mode, for catalog and for report alike, an empty (or missing) filename
  gives the failure result \<open>Filename is empty.\<close> and a non-empty filename with an absent
  body gives the failure result \<open>Request body is undefined\<close>; in both cases nothing is
  uploaded (the cloud state is returned as it was). The same holds of the dispatcher for
  a file-mode request that passes session validation.
\<close>

theorem file_mode_missing_filename_or_body:
  "(\<not> truthy filename \<longrightarrow>
      file_step env filename body cloud = (''failure'' @ [CHR 0x0A] @ ''Filename is empty.'', cloud)
      \<and> fileReport filename body cloud = (''failure'' @ [CHR 0x0A] @ ''Filename is empty.'', cloud))
   \<and> (truthy filename \<longrightarrow>
      file_step env filename None cloud =
        (''failure'' @ [CHR 0x0A] @ ''Request body is undefined'', cloud)
      \<and> fileReport filename None cloud =
        (''failure'' @ [CHR 0x0A] @ ''Request body is undefined'', cloud))
   \<and> ((query_type request = Some ''catalog'' \<or> query_type request = Some ''report'')
       \<and> query_mode request = Some ''file''
       \<and> success (fst (validateRequestSessionInfo env settings
                          (getRequestSessionInfo settings request) cloud)) \<longrightarrow>
      (\<not> truthy (query_filename request) \<longrightarrow>
         main env settings (Some request) cloud =
           (Inr (''failure'' @ [CHR 0x0A] @ ''Filename is empty.''), cloud))
      \<and> (truthy (query_filename request) \<and> rawBody request = None \<longrightarrow>
         main env settings (Some request) cloud =
           (Inr (''failure'' @ [CHR 0x0A] @ ''Request body is undefined''), cloud)))"
proof -
  have h1: "\<not> truthy fn \<Longrightarrow>
      file_step env fn b cloud = (''failure'' @ [CHR 0x0A] @ ''Filename is empty.'', cloud)
      \<and> fileReport fn b cloud = (''failure'' @ [CHR 0x0A] @ ''Filename is empty.'', cloud)"
    for fn b
    by (simp add: file_step_def fileReport_def failureResult_Some newline_def)
  have h2: "truthy fn \<Longrightarrow>
      file_step env fn None cloud =
        (''failure'' @ [CHR 0x0A] @ ''Request body is undefined'', cloud)
      \<and> fileReport fn None cloud =
        (''failure'' @ [CHR 0x0A] @ ''Request body is undefined'', cloud)" for fn
    by (simp add: file_step_def fileReport_def failureResult_Some newline_def)
  have m: "(\<not> truthy (query_filename request) \<longrightarrow>
         main env settings (Some request) cloud =
           (Inr (''failure'' @ [CHR 0x0A] @ ''Filename is empty.''), cloud))
      \<and> (truthy (query_filename request) \<and> rawBody request = None \<longrightarrow>
         main env settings (Some request) cloud =
           (Inr (''failure'' @ [CHR 0x0A] @ ''Request body is undefined''), cloud))"
    if t: "query_type request = Some ''catalog'' \<or> query_type request = Some ''report''"
      and md: "query_mode request = Some ''file''"
      and ok: "success (fst (validateRequestSessionInfo env settings
                          (getRequestSessionInfo settings request) cloud))"
    using t
  proof
    assume "query_type request = Some ''catalog''"
    then show ?thesis
      using main_file_mode(1) [OF md ok] h1 [of "query_filename request" "rawBody request"]
        h2 [of "query_filename request"]
      by auto
  next
    assume "query_type request = Some ''report''"
    then show ?thesis
      using main_file_mode(2) [OF md ok] h1 [of "query_filename request" "rawBody request"]
        h2 [of "query_filename request"]
      by auto
  qed
  show ?thesis
    using h1 [of filename body] h2 [of filename] m by blast
qed

theorem file_mode_missing_filename_or_body_witness:
  "file_step env0 (Some []) (Some [7]) cloud0 =
      (''failure'' @ [CHR 0x0A] @ ''Filename is empty.'', cloud0)
   \<and> fileReport None None cloud0 = (''failure'' @ [CHR 0x0A] @ ''Filename is empty.'', cloud0)
   \<and> file_step env0 (Some ''a.xml'') None cloud0 =
      (''failure'' @ [CHR 0x0A] @ ''Request body is undefined'', cloud0)
   \<and> fileReport (Some ''a.xml'') None cloud0 =
      (''failure'' @ [CHR 0x0A] @ ''Request body is undefined'', cloud0)
   \<and> main env0 settings0
       (Some \<lparr>query_type = Some ''report'', query_mode = Some ''file'',
              query_filename = Some ''a.xml'', query_sessid = Some ''tok'',
              cookies = Some [(''sessionId'', ''live'')], auth = None, rawBody = None\<rparr>) cloud0 =
      (Inr (''failure'' @ [CHR 0x0A] @ ''Request body is undefined''), cloud0)"
proof -
  let ?r = "\<lparr>query_type = Some ''report'', query_mode = Some ''file'',
              query_filename = Some ''a.xml'', query_sessid = Some ''tok'',
              cookies = Some [(''sessionId'', ''live'')], auth = None,
              rawBody = (None :: Buffer option)\<rparr>"
  have v: "success (fst (validateRequestSessionInfo env0 settings0
                          (getRequestSessionInfo settings0 ?r) cloud0))"
    by (simp add: validateRequestSessionInfo_def loadSession_def getRequestSessionInfo_def
        env0_def settings0_def cloud0_def docPath_def liveDoc_def)
  show ?thesis
    using file_mode_missing_filename_or_body [where filename = "Some []" and env = env0
        and body = "Some [7]" and cloud = cloud0 and request = ?r and settings = settings0]
      file_mode_missing_filename_or_body [where filename = None and env = env0
        and body = None and cloud = cloud0 and request = ?r and settings = settings0]
      file_mode_missing_filename_or_body [where filename = "Some ''a.xml''" and env = env0
        and body = None and cloud = cloud0 and request = ?r and settings = settings0]
      v
    by simp
qed

text \<open>
  C10. The destination bucket of a file-mode upload depends on the exchange type and on
  the shape of the filename. A catalog upload of a filename with the prefix
  \<open>import_files\<close> goes to \<open>1c-exchange-files\<close> and of any other filename to
  \<open>1c-exchange-catalog\<close>; a report upload goes to \<open>1c-exchange-report\<close> whatever the
  filename. Exactly one upload is added, by the handlers and by the dispatcher for a
  file-mode request that passes session validation.
\<close>

theorem file_mode_buckets:
  assumes "f \<noteq> []"
  shows "map bucketName (storage (snd (file_step env (Some f) (Some body) cloud))) =
           map bucketName (storage cloud) @
             [if startsWith f ''import_files'' then ''1c-exchange-files'' else ''1c-exchange-catalog'']
       \<and> map bucketName (storage (snd (fileReport (Some f) (Some body) cloud))) =
           map bucketName (storage cloud) @ [''1c-exchange-report'']
       \<and> (query_mode request = Some ''file''
            \<and> success (fst (validateRequestSessionInfo env settings
                               (getRequestSessionInfo settings request) cloud))
            \<and> query_filename request = Some f \<and> rawBody request = Some body \<longrightarrow>
          (query_type request = Some ''catalog'' \<longrightarrow>
             map bucketName (storage (snd (main env settings (Some request) cloud))) =
               map bucketName (storage cloud) @
                 [if startsWith f ''import_files'' then ''1c-exchange-files''
                  else ''1c-exchange-catalog''])
          \<and> (query_type request = Some ''report'' \<longrightarrow>
             map bucketName (storage (snd (main env settings (Some request) cloud))) =
               map bucketName (storage cloud) @ [''1c-exchange-report'']))"
proof -
  have h: "map bucketName (storage (snd (file_step env (Some f) (Some body) cloud))) =
           map bucketName (storage cloud) @
             [if startsWith f ''import_files'' then ''1c-exchange-files'' else ''1c-exchange-catalog'']"
    "map bucketName (storage (snd (fileReport (Some f) (Some body) cloud))) =
           map bucketName (storage cloud) @ [''1c-exchange-report'']"
    using assms by (simp_all add: file_step_def fileReport_def saveToStorage_def Let_def)
  have "map bucketName (storage (snd (main env settings (Some request) cloud))) =
               map bucketName (storage cloud) @
                 [if startsWith f ''import_files'' then ''1c-exchange-files''
                  else ''1c-exchange-catalog'']"
    if "query_mode request = Some ''file''"
      and "success (fst (validateRequestSessionInfo env settings
                               (getRequestSessionInfo settings request) cloud))"
      and "query_filename request = Some f" and "rawBody request = Some body"
      and "query_type request = Some ''catalog''"
    using main_file_mode(1) [OF that(1,2,5)] that(3,4) h(1) by simp
  moreover have "map bucketName (storage (snd (main env settings (Some request) cloud))) =
               map bucketName (storage cloud) @ [''1c-exchange-report'']"
    if "query_mode request = Some ''file''"
      and "success (fst (validateRequestSessionInfo env settings
                               (getRequestSessionInfo settings request) cloud))"
      and "query_filename request = Some f" and "rawBody request = Some body"
      and "query_type request = Some ''report''"
    using main_file_mode(2) [OF that(1,2,5)] that(3,4) h(2) by simp
  ultimately show ?thesis using h by blast
qed

theorem file_mode_buckets_witness:
  "map bucketName (storage (snd (file_step env0 (Some ''import_files/a.png'') (Some [7]) cloud0))) =
      [''1c-exchange-files'']
   \<and> map bucketName (storage (snd (file_step env0 (Some ''import.xml'') (Some [7]) cloud0))) =
      [''1c-exchange-catalog'']
   \<and> map bucketName (storage (snd (fileReport (Some ''import_files/a.png'') (Some [7]) cloud0))) =
      [''1c-exchange-report'']
   \<and> map bucketName (storage (snd (main env0 settings0
       (Some \<lparr>query_type = Some ''report'', query_mode = Some ''file'',
              query_filename = Some ''report1.xml'', query_sessid = Some ''tok'',
              cookies = Some [(''sessionId'', ''live'')], auth = None, rawBody = Some [7]\<rparr>)
       cloud0))) = [''1c-exchange-report'']"
proof -
  let ?r = "\<lparr>query_type = Some ''report'', query_mode = Some ''file'',
              query_filename = Some ''report1.xml'', query_sessid = Some ''tok'',
              cookies = Some [(''sessionId'', ''live'')], auth = None,
              rawBody = Some [7 :: 8 word]\<rparr>"
  have v: "success (fst (validateRequestSessionInfo env0 settings0
                          (getRequestSessionInfo settings0 ?r) cloud0))"
    by (simp add: validateRequestSessionInfo_def loadSession_def getRequestSessionInfo_def
        env0_def settings0_def cloud0_def docPath_def liveDoc_def)
  have n: "''import_files/a.png'' \<noteq> []" "''import.xml'' \<noteq> []" "''report1.xml'' \<noteq> []"
    by simp_all
  have s: "startsWith ''import_files/a.png'' ''import_files''"
    "\<not> startsWith ''import.xml'' ''import_files''"
    by (simp_all add: startsWith_def)
  have st: "storage cloud0 = []" by (simp add: cloud0_def)
  show ?thesis
    using file_mode_buckets [OF n(1), where env = env0 and body = "[7]" and cloud = cloud0
        and request = ?r and settings = settings0]
      file_mode_buckets [OF n(2), where env = env0 and body = "[7]" and cloud = cloud0
        and request = ?r and settings = settings0]
      file_mode_buckets [OF n(3), where env = env0 and body = "[7]" and cloud = cloud0
        and request = ?r and settings = settings0]
      v s st
    by simp
qed

text \<open>
  C7 as the specification words it: a filename is routed as an \<open>import_files\<close> file when
  it starts with the path segment \<open>import_files\<close>, and every other catalog filename gets
  the timestamp prefix. The handler tests the text of the filename with \<open>startsWith\<close>:
  the catalog file \<open>import_files_old.xml\<close>, whose first segment is not \<open>import_files\<close>,
  is uploaded without a timestamp prefix.
\<close>

theorem import_files_segment_counterexample:
  "firstSegment ''import_files_old.xml'' \<noteq> ''import_files''
   \<and> storage (snd (file_step env0 (Some ''import_files_old.xml'') (Some [7]) cloud0)) =
       [\<lparr>bucketName = ''1c-exchange-files'', remotePath = ''import_files_old.xml'', data = [7]\<rparr>]
   \<and> ''import_files_old.xml'' \<noteq>
       toFormat env0 ''yyyy-MM-dd_HH-mm-ss-SSSZZZ'' @ ''_'' @ ''import_files_old.xml''"
  by (simp add: firstSegment_def isSlash_def file_step_def startsWith_def saveToStorage_def
      cloud0_def env0_def posix_join_def posix_dirname_def posix_basename_def
      posix_normalize_def normalizeString_def)

text \<open>
  C7, amended. For every file-mode write with a non-empty filename and a body present: a
  filename whose text starts with \<open>import_files\<close> is uploaded to the join of its
  directory name and its base filename, with no timestamp prefix; any other catalog
  filename is uploaded at the root to the timestamp generated in the format
  \<open>yyyy-MM-dd_HH-mm-ss-SSSZZZ\<close>, joined to the filename with \<open>_\<close>; any other report
  filename is uploaded at the root with no timestamp prefix. The join normalises the
  path; for a path without empty, \<open>.\<close> or \<open>..\<close> segments the upload goes to exactly the
  filename, respectively to \<open><timestamp>_<filename>\<close>.
\<close>

theorem file_mode_remote_path:
  assumes "f \<noteq> []"
  shows "(startsWith f ''import_files'' \<longrightarrow>
            file_step env (Some f) (Some body) cloud =
              (''success'', cloud\<lparr>storage := storage cloud @
                 [\<lparr>bucketName = ''1c-exchange-files'',
                   remotePath = posix_join (posix_dirname f) (posix_basename f),
                   data = body\<rparr>]\<rparr>)
            \<and> fileReport (Some f) (Some body) cloud =
              (''success'', cloud\<lparr>storage := storage cloud @
                 [\<lparr>bucketName = ''1c-exchange-report'',
                   remotePath = posix_join (posix_dirname f) (posix_basename f),
                   data = body\<rparr>]\<rparr>)
            \<and> (cleanPath f \<longrightarrow> posix_join (posix_dirname f) (posix_basename f) = f))
       \<and> (\<not> startsWith f ''import_files'' \<longrightarrow>
            (toFormat env ''yyyy-MM-dd_HH-mm-ss-SSSZZZ'' \<noteq> [] \<longrightarrow>
               file_step env (Some f) (Some body) cloud =
                 (''success'', cloud\<lparr>storage := storage cloud @
                    [\<lparr>bucketName = ''1c-exchange-catalog'',
                      remotePath = posix_join []
                        (toFormat env ''yyyy-MM-dd_HH-mm-ss-SSSZZZ'' @ ''_'' @ f),
                      data = body\<rparr>]\<rparr>))
            \<and> (cleanPath (toFormat env ''yyyy-MM-dd_HH-mm-ss-SSSZZZ'' @ ''_'' @ f) \<longrightarrow>
                 posix_join [] (toFormat env ''yyyy-MM-dd_HH-mm-ss-SSSZZZ'' @ ''_'' @ f) =
                   toFormat env ''yyyy-MM-dd_HH-mm-ss-SSSZZZ'' @ ''_'' @ f)
            \<and> fileReport (Some f) (Some body) cloud =
              (''success'', cloud\<lparr>storage := storage cloud @
                 [\<lparr>bucketName = ''1c-exchange-report'', remotePath = posix_join [] f,
                   data = body\<rparr>]\<rparr>)
            \<and> (cleanPath f \<longrightarrow> posix_join [] f = f))"
proof -
  have a: "file_step env (Some f) (Some body) cloud =
              (''success'', cloud\<lparr>storage := storage cloud @
                 [\<lparr>bucketName = ''1c-exchange-files'',
                   remotePath = posix_join (posix_dirname f) (posix_basename f),
                   data = body\<rparr>]\<rparr>)
            \<and> fileReport (Some f) (Some body) cloud =
              (''success'', cloud\<lparr>storage := storage cloud @
                 [\<lparr>bucketName = ''1c-exchange-report'',
                   remotePath = posix_join (posix_dirname f) (posix_basename f),
                   data = body\<rparr>]\<rparr>)"
    if "startsWith f ''import_files''"
    using assms that by (simp add: file_step_def fileReport_def saveToStorage_def Let_def)
  have b: "file_step env (Some f) (Some body) cloud =
                 (''success'', cloud\<lparr>storage := storage cloud @
                    [\<lparr>bucketName = ''1c-exchange-catalog'',
                      remotePath = posix_join []
                        (toFormat env ''yyyy-MM-dd_HH-mm-ss-SSSZZZ'' @ ''_'' @ f),
                      data = body\<rparr>]\<rparr>)"
    if "\<not> startsWith f ''import_files''"
      and "toFormat env ''yyyy-MM-dd_HH-mm-ss-SSSZZZ'' \<noteq> []"
    using assms that by (simp add: file_step_def saveToStorage_def Let_def)
  have c: "fileReport (Some f) (Some body) cloud =
              (''success'', cloud\<lparr>storage := storage cloud @
                 [\<lparr>bucketName = ''1c-exchange-report'', remotePath = posix_join [] f,
                   data = body\<rparr>]\<rparr>)"
    if "\<not> startsWith f ''import_files''"
    using assms that by (simp add: fileReport_def saveToStorage_def Let_def)
  show ?thesis
    using a b c dirname_basename_clean [of f] posix_join_root_clean [of f]
      posix_join_root_clean [of "toFormat env ''yyyy-MM-dd_HH-mm-ss-SSSZZZ'' @ ''_'' @ f"]
    by blast
qed

theorem file_mode_remote_path_witness:
  "storage (snd (file_step env0 (Some ''import_files/orders/order1.xml'') (Some [7]) cloud0)) =
      [\<lparr>bucketName = ''1c-exchange-files'', remotePath = ''import_files/orders/order1.xml'',
        data = [7]\<rparr>]
   \<and> storage (snd (file_step env0 (Some ''import.xml'') (Some [7]) cloud0)) =
      [\<lparr>bucketName = ''1c-exchange-catalog'',
        remotePath = ''2020-11-02_06-53-20-000+0000_import.xml'', data = [7]\<rparr>]
   \<and> storage (snd (fileReport (Some ''report1.xml'') (Some [7]) cloud0)) =
      [\<lparr>bucketName = ''1c-exchange-report'', remotePath = ''report1.xml'', data = [7]\<rparr>]"
proof -
  have n: "''import_files/orders/order1.xml'' \<noteq> []" "''import.xml'' \<noteq> []"
    "''report1.xml'' \<noteq> []"
    by simp_all
  have s: "startsWith ''import_files/orders/order1.xml'' ''import_files''"
    "\<not> startsWith ''import.xml'' ''import_files''"
    "\<not> startsWith ''report1.xml'' ''import_files''"
    by (simp_all add: startsWith_def)
  have t: "toFormat env0 ''yyyy-MM-dd_HH-mm-ss-SSSZZZ'' = ''2020-11-02_06-53-20-000+0000''"
    by (simp add: env0_def)
  have c: "cleanPath ''import_files/orders/order1.xml''"
    "cleanPath (''2020-11-02_06-53-20-000+0000'' @ ''_'' @ ''import.xml'')"
    "cleanPath ''report1.xml''"
    by (simp_all add: cleanPath_def isSlash_def)
  have st: "storage cloud0 = []" by (simp add: cloud0_def)
  show ?thesis
    using file_mode_remote_path [OF n(1), where env = env0 and body = "[7]" and cloud = cloud0]
      file_mode_remote_path [OF n(2), where env = env0 and body = "[7]" and cloud = cloud0]
      file_mode_remote_path [OF n(3), where env = env0 and body = "[7]" and cloud = cloud0]
      s t c st
    by simp
qed

end
